theory Spec2Isabelle
  imports Main
begin

section \<open>Python values seen by torch/utils/data/decorator.py\<close>

text \<open>
  The module is a set of decorators. Its inputs are Python objects: classes, instances of
  \<^verbatim>\<open>non_deterministic\<close>, pipeline instances, functions, bound methods and plain
  values. Mutable objects are references into a store; the module-level flag
  \<^verbatim>\<open>_determinism\<close> is a field of the interpreter state. Exceptions are values:
  every function returns the exception or the result, together with the state it leaves.
\<close>

type_synonym addr = nat

datatype exn = TypeError | AttributeError | IndexError | OtherException string

text \<open>A class: its \<^verbatim>\<open>__name__\<close> and the names of its proper ancestors.\<close>

datatype pyclass = PyClass (cls_name: string) (cls_bases: "string list")

definition IterDataPipe :: string where
  "IterDataPipe = ''IterDataPipe''"

definition issubclass :: "pyclass \<Rightarrow> string \<Rightarrow> bool" where
  "issubclass c d = (d = cls_name c \<or> d \<in> set (cls_bases c))"

datatype pyobj =
    ClassObj pyclass
  | NonDetObj addr
  | PipeObj addr
  | MethodObj pyobj string
  | FunctionObj string
  | BoolObj bool
  | IntObj int
  | StrObj string
  | NoneObj

text \<open>
  \<open>ClassObj\<close> is a class (\<^verbatim>\<open>isinstance(x, Type)\<close>), \<open>NonDetObj a\<close> the instance of
  \<^verbatim>\<open>non_deterministic\<close> at address \<open>a\<close>, \<open>PipeObj a\<close> the instance of a subclass of
  \<^verbatim>\<open>IterDataPipe\<close> at address \<open>a\<close>, \<open>MethodObj s n\<close> a bound method named \<open>n\<close> whose
  \<^verbatim>\<open>__self__\<close> is \<open>s\<close>, \<open>FunctionObj n\<close> a plain function named \<open>n\<close>.
\<close>

text \<open>\<^verbatim>\<open>*args, **kwargs\<close>: the positional arguments and the keyword arguments.\<close>

type_synonym pyargs = "pyobj list \<times> (string \<times> pyobj) list"

definition isinstance_Type :: "pyobj \<Rightarrow> bool" where
  "isinstance_Type x = (case x of ClassObj _ \<Rightarrow> True | _ \<Rightarrow> False)"

definition isinstance_non_deterministic :: "pyobj \<Rightarrow> bool" where
  "isinstance_non_deterministic x = (case x of NonDetObj _ \<Rightarrow> True | _ \<Rightarrow> False)"

definition isinstance_bool :: "pyobj \<Rightarrow> bool" where
  "isinstance_bool x = (case x of BoolObj _ \<Rightarrow> True | _ \<Rightarrow> False)"

text \<open>\<^verbatim>\<open>isinstance(x, Callable)\<close>: classes, functions, bound methods, and the instances
  of \<^verbatim>\<open>non_deterministic\<close>, which defines \<^verbatim>\<open>__call__\<close>.\<close>

definition isinstance_Callable :: "pyobj \<Rightarrow> bool" where
  "isinstance_Callable x =
     (case x of ClassObj _ \<Rightarrow> True | NonDetObj _ \<Rightarrow> True | MethodObj _ _ \<Rightarrow> True
      | FunctionObj _ \<Rightarrow> True | _ \<Rightarrow> False)"

text \<open>\<^verbatim>\<open>x.__self__\<close>, where \<^verbatim>\<open>hasattr(x, '__self__')\<close>.\<close>

definition self_attr :: "pyobj \<Rightarrow> pyobj option" where
  "self_attr x = (case x of MethodObj s _ \<Rightarrow> Some s | _ \<Rightarrow> None)"

text \<open>\<^verbatim>\<open>x.__name__\<close>: classes, functions and bound methods have one; instances and plain
  values raise AttributeError.\<close>

definition name_attr :: "pyobj \<Rightarrow> exn + string" where
  "name_attr x =
     (case x of ClassObj c \<Rightarrow> Inr (cls_name c) | FunctionObj n \<Rightarrow> Inr n
      | MethodObj _ n \<Rightarrow> Inr n | _ \<Rightarrow> Inl AttributeError)"

section \<open>The interpreter state\<close>

text \<open>An instance of \<^verbatim>\<open>non_deterministic\<close>: \<open>cls\<close> is None until set (the class
  attribute's default), \<open>deterministic_fn\<close> is absent until set.\<close>

record non_deterministic =
  cls :: "pyclass option"
  deterministic_fn :: "pyobj option"

text \<open>
  \<open>determinism\<close> is the module global \<^verbatim>\<open>_determinism\<close>; \<open>nd_objs\<close> holds the instances
  of \<^verbatim>\<open>non_deterministic\<close>; \<open>pipe_type\<close> the \<^verbatim>\<open>type\<close> attribute of each pipeline
  instance, a value of the type \<open>'t\<close> of \<^verbatim>\<open>_DataPipeType\<close> (torch.utils.data.typing, not
  part of this module); \<open>ext\<close> is the rest of the interpreter state, which only code outside
  this module reads or writes.
\<close>

record ('t, 'x) world =
  determinism :: bool
  nd_objs :: "addr \<Rightarrow> non_deterministic"
  pipe_type :: "addr \<Rightarrow> 't"
  ext :: 'x

type_synonym ('a, 't, 'x) outcome = "(exn + 'a) \<times> ('t, 'x) world"

text \<open>Calling a Python callable that this module does not define (a class, a function):
  it may raise, and it may change the whole state.\<close>

type_synonym ('t, 'x) pycall = "pyobj \<Rightarrow> pyargs \<Rightarrow> ('t, 'x) world \<Rightarrow> (pyobj, 't, 'x) outcome"

section \<open>Functional API\<close>

record functional_datapipe =
  name :: string

definition functional_datapipe_init :: "string \<Rightarrow> functional_datapipe" where
  "functional_datapipe_init nm = \<lparr>name = nm\<rparr>"

text \<open>
  \<^verbatim>\<open>functional_datapipe.__call__(self, cls)\<close>. The class method
  \<^verbatim>\<open>IterDataPipe.register_datapipe_as_function\<close> belongs to torch.utils.data and is
  the first parameter: given the name and the object it may raise and may change the state.
\<close>

definition functional_datapipe_call ::
  "(string \<Rightarrow> pyobj \<Rightarrow> ('t, 'x) world \<Rightarrow> (unit, 't, 'x) outcome) \<Rightarrow>
   functional_datapipe \<Rightarrow> pyobj \<Rightarrow> ('t, 'x) world \<Rightarrow> (pyobj, 't, 'x) outcome" where
  "functional_datapipe_call register_datapipe_as_function self obj w =
     (if (case obj of
            ClassObj c \<Rightarrow> \<not> issubclass c IterDataPipe
          | _ \<Rightarrow> \<not> isinstance_non_deterministic obj \<and>
                \<not> (case self_attr obj of None \<Rightarrow> False
                   | Some s \<Rightarrow> isinstance_non_deterministic s))
      then (Inl TypeError, w)
      else (case register_datapipe_as_function (name self) obj w of
              (Inl e, w') \<Rightarrow> (Inl e, w')
            | (Inr _, w') \<Rightarrow> (Inr obj, w')))"

section \<open>Determinism\<close>

record guaranteed_datapipes_determinism =
  prev :: bool

definition guaranteed_datapipes_determinism_init ::
  "('t, 'x) world \<Rightarrow> guaranteed_datapipes_determinism \<times> ('t, 'x) world" where
  "guaranteed_datapipes_determinism_init w =
     (\<lparr>prev = determinism w\<rparr>, w\<lparr>determinism := True\<rparr>)"

definition guaranteed_datapipes_determinism_enter ::
  "guaranteed_datapipes_determinism \<Rightarrow> ('t, 'x) world \<Rightarrow> ('t, 'x) world" where
  "guaranteed_datapipes_determinism_enter self w = w"

text \<open>\<^verbatim>\<open>__exit__(self, exc_type, exc_value, traceback)\<close>: the exception of the body, if
  any, is the second argument. It returns None, so the exception propagates.\<close>

definition guaranteed_datapipes_determinism_exit ::
  "guaranteed_datapipes_determinism \<Rightarrow> exn option \<Rightarrow> ('t, 'x) world \<Rightarrow> ('t, 'x) world" where
  "guaranteed_datapipes_determinism_exit self exc w = w\<lparr>determinism := prev self\<rparr>"

text \<open>The statement \<^verbatim>\<open>with guaranteed_datapipes_determinism(): body\<close>: construct the
  manager, enter, run the body, exit with the body's exception if it raised, and propagate
  that exception.\<close>

definition with_guaranteed_datapipes_determinism ::
  "(('t, 'x) world \<Rightarrow> ('a, 't, 'x) outcome) \<Rightarrow> ('t, 'x) world \<Rightarrow> ('a, 't, 'x) outcome" where
  "with_guaranteed_datapipes_determinism body w =
     (let (mgr, w1) = guaranteed_datapipes_determinism_init w;
          w2 = guaranteed_datapipes_determinism_enter mgr w1;
          (r, w3) = body w2;
          exc = (case r of Inl e \<Rightarrow> Some e | Inr _ \<Rightarrow> None)
      in (r, guaranteed_datapipes_determinism_exit mgr exc w3))"

text \<open>\<open>n\<close> contexts nested around a body.\<close>

fun nested_determinism ::
  "nat \<Rightarrow> (('t, 'x) world \<Rightarrow> ('a, 't, 'x) outcome) \<Rightarrow> ('t, 'x) world \<Rightarrow> ('a, 't, 'x) outcome" where
  "nested_determinism 0 body = body"
| "nested_determinism (Suc n) body =
     with_guaranteed_datapipes_determinism (nested_determinism n body)"

text \<open>
  \<^verbatim>\<open>non_deterministic.__init__(self, arg)\<close>, on the instance at address \<open>self\<close>.
\<close>

definition non_deterministic_init ::
  "addr \<Rightarrow> pyobj \<Rightarrow> ('t, 'x) world \<Rightarrow> (unit, 't, 'x) outcome" where
  "non_deterministic_init self arg w =
     (case arg of
        ClassObj c \<Rightarrow>
          if \<not> issubclass c IterDataPipe then (Inl TypeError, w)
          else (Inr (), w\<lparr>nd_objs := (nd_objs w)(self := (nd_objs w self)\<lparr>cls := Some c\<rparr>)\<rparr>)
      | _ \<Rightarrow>
          if isinstance_Callable arg
          then (Inr (),
                w\<lparr>nd_objs := (nd_objs w)(self := (nd_objs w self)\<lparr>deterministic_fn := Some arg\<rparr>)\<rparr>)
          else (Inl TypeError, w))"

text \<open>
  \<^verbatim>\<open>non_deterministic.__call__(self, *args, **kwargs)\<close>. The first parameter \<open>call\<close>
  is the call of a Python callable defined elsewhere; \<^verbatim>\<open>self.cls(*args, **kwargs)\<close> is
  \<open>call (ClassObj c) args\<close>. In the functional branch \<^verbatim>\<open>args[0]\<close> raises IndexError
  without a positional argument, and the message of the TypeError is built from
  \<^verbatim>\<open>args[0].__name__\<close>, which is evaluated before the TypeError is raised.
\<close>

definition non_deterministic_call ::
  "('t, 'x) pycall \<Rightarrow> addr \<Rightarrow> pyargs \<Rightarrow> ('t, 'x) world \<Rightarrow> (pyobj, 't, 'x) outcome" where
  "non_deterministic_call call self args w =
     (case cls (nd_objs w self) of
        Some c \<Rightarrow>
          if determinism w then (Inl TypeError, w)
          else call (ClassObj c) args w
      | None \<Rightarrow>
          (case fst args of
             [] \<Rightarrow> (Inl IndexError, w)
           | a0 # _ \<Rightarrow>
               (case a0 of
                  ClassObj c \<Rightarrow>
                    if issubclass c IterDataPipe
                    then (Inr (MethodObj (NonDetObj self) ''deterministic_wrapper_fn''),
                          w\<lparr>nd_objs := (nd_objs w)(self := (nd_objs w self)\<lparr>cls := Some c\<rparr>)\<rparr>)
                    else (case name_attr a0 of
                            Inl e \<Rightarrow> (Inl e, w) | Inr _ \<Rightarrow> (Inl TypeError, w))
                | _ \<Rightarrow>
                    (case name_attr a0 of
                       Inl e \<Rightarrow> (Inl e, w) | Inr _ \<Rightarrow> (Inl TypeError, w)))))"

text \<open>
  \<^verbatim>\<open>non_deterministic.deterministic_wrapper_fn(self, *args, **kwargs)\<close>. Reading
  \<^verbatim>\<open>self.deterministic_fn\<close> raises AttributeError when it was never set. After the call
  of \<^verbatim>\<open>deterministic_fn\<close> the flag and \<^verbatim>\<open>self.cls\<close> are read from the state that call
  left. The message of the second TypeError is built from \<^verbatim>\<open>self.cls.__name__\<close>, which
  raises AttributeError when \<^verbatim>\<open>self.cls\<close> is None; calling None raises TypeError.
\<close>

definition deterministic_wrapper_fn ::
  "('t, 'x) pycall \<Rightarrow> addr \<Rightarrow> pyargs \<Rightarrow> ('t, 'x) world \<Rightarrow> (pyobj, 't, 'x) outcome" where
  "deterministic_wrapper_fn call self args w =
     (case (case deterministic_fn (nd_objs w self) of
              None \<Rightarrow> (Inl AttributeError, w)
            | Some fn \<Rightarrow> call fn args w) of
        (Inl e, w1) \<Rightarrow> (Inl e, w1)
      | (Inr res, w1) \<Rightarrow>
          if \<not> isinstance_bool res then (Inl TypeError, w1)
          else if determinism w1 \<and> res = BoolObj True
          then (case cls (nd_objs w1 self) of
                  None \<Rightarrow> (Inl AttributeError, w1)
                | Some c \<Rightarrow> (Inl TypeError, w1))
          else (case cls (nd_objs w1 self) of
                  None \<Rightarrow> (Inl TypeError, w1)
                | Some c \<Rightarrow> call (ClassObj c) args w1))"

section \<open>Construct-time checking\<close>

text \<open>
  A type hint is an instance of \<^verbatim>\<open>_DataPipeMeta\<close>, with its \<^verbatim>\<open>type\<close> attribute, or
  anything else. A function to decorate is its \<^verbatim>\<open>__name__\<close>, the binding of the arguments
  of a call to its parameters (\<^verbatim>\<open>inspect.signature(f).bind\<close>, which raises TypeError when
  they do not fit; \<^verbatim>\<open>bound.arguments\<close> in binding order), its type hints
  (\<^verbatim>\<open>get_type_hints(f)\<close>, which may raise) and what calling it does.
\<close>

datatype 't hint = DataPipeHint 't | OtherHint

record ('t, 'x) pyfunction =
  fn_name :: string
  fn_bind :: "pyargs \<Rightarrow> exn + (string \<times> pyobj) list"
  fn_hints :: "exn + (string \<Rightarrow> 't hint option)"
  fn_call :: "pyargs \<Rightarrow> ('t, 'x) world \<Rightarrow> (pyobj, 't, 'x) outcome"

text \<open>
  The loop of the wrapper over \<^verbatim>\<open>bound.arguments.items()\<close>. The first parameter is
  \<^verbatim>\<open>_DataPipeType.issubtype\<close> (torch.utils.data.typing), a test that changes nothing.
  \<^verbatim>\<open>_DataPipeType\<close> values are compared by their contents, so a deep copy of the hint's
  type is the hint's type.
\<close>

fun validate_arguments ::
  "('t \<Rightarrow> 't \<Rightarrow> bool) \<Rightarrow> (string \<Rightarrow> 't hint option) \<Rightarrow> (string \<times> pyobj) list \<Rightarrow>
   ('t, 'x) world \<Rightarrow> (unit, 't, 'x) outcome" where
  "validate_arguments issubtype hints [] w = (Inr (), w)"
| "validate_arguments issubtype hints ((argument_name, v) # rest) w =
     (case hints argument_name of
        Some (DataPipeHint ht) \<Rightarrow>
          (case v of
             PipeObj a \<Rightarrow>
               if \<not> issubtype (pipe_type w a) ht then (Inl TypeError, w)
               else validate_arguments issubtype hints rest
                      (if pipe_type w a \<noteq> ht
                       then w\<lparr>pipe_type := (pipe_type w)(a := ht)\<rparr> else w)
           | _ \<Rightarrow> (Inl TypeError, w))
      | _ \<Rightarrow> validate_arguments issubtype hints rest w)"

definition construct_time_wrapper ::
  "('t \<Rightarrow> 't \<Rightarrow> bool) \<Rightarrow> ('t, 'x) pyfunction \<Rightarrow> (string \<Rightarrow> 't hint option) \<Rightarrow>
   pyargs \<Rightarrow> ('t, 'x) world \<Rightarrow> (pyobj, 't, 'x) outcome" where
  "construct_time_wrapper issubtype f hints args w =
     (case fn_bind f args of
        Inl e \<Rightarrow> (Inl e, w)
      | Inr bound \<Rightarrow>
          (case validate_arguments issubtype hints bound w of
             (Inl e, w') \<Rightarrow> (Inl e, w')
           | (Inr _, w') \<Rightarrow> fn_call f args w'))"

text \<open>\<^verbatim>\<open>construct_time_validation(f)\<close>: the wrapper keeps the name and the signature of
  \<open>f\<close> (\<^verbatim>\<open>functools.wraps\<close>).\<close>

definition construct_time_validation ::
  "('t \<Rightarrow> 't \<Rightarrow> bool) \<Rightarrow> ('t, 'x) pyfunction \<Rightarrow> exn + ('t, 'x) pyfunction" where
  "construct_time_validation issubtype f =
     (if fn_name f \<noteq> ''__init__'' \<and> fn_name f \<noteq> ''__new__'' then Inl TypeError
      else (case fn_hints f of
              Inl e \<Rightarrow> Inl e
            | Inr hints \<Rightarrow> Inr (f\<lparr>fn_call := construct_time_wrapper issubtype f hints\<rparr>)))"

text \<open>The bound arguments that violate their hint in a given state (not an instance of
  IterDataPipe, or of a type that is not a subtype of the hint's type), those that are not
  an instance of IterDataPipe, and the pipeline instances bound to hinted parameters.\<close>

definition violates ::
  "('t \<Rightarrow> 't \<Rightarrow> bool) \<Rightarrow> (string \<Rightarrow> 't hint option) \<Rightarrow> ('t, 'x) world \<Rightarrow>
   string \<times> pyobj \<Rightarrow> bool" where
  "violates issubtype hints w b =
     (case hints (fst b) of
        Some (DataPipeHint ht) \<Rightarrow>
          (case snd b of PipeObj a \<Rightarrow> \<not> issubtype (pipe_type w a) ht | _ \<Rightarrow> True)
      | _ \<Rightarrow> False)"

definition not_a_pipe :: "(string \<Rightarrow> 't hint option) \<Rightarrow> string \<times> pyobj \<Rightarrow> bool" where
  "not_a_pipe hints b =
     (case hints (fst b) of
        Some (DataPipeHint ht) \<Rightarrow> (case snd b of PipeObj a \<Rightarrow> False | _ \<Rightarrow> True)
      | _ \<Rightarrow> False)"

fun hinted_pipes :: "(string \<Rightarrow> 't hint option) \<Rightarrow> (string \<times> pyobj) list \<Rightarrow> addr list" where
  "hinted_pipes hints [] = []"
| "hinted_pipes hints ((argument_name, v) # rest) =
     (case hints argument_name of
        Some (DataPipeHint ht) \<Rightarrow>
          (case v of PipeObj a \<Rightarrow> a # hinted_pipes hints rest | _ \<Rightarrow> hinted_pipes hints rest)
      | _ \<Rightarrow> hinted_pipes hints rest)"

section \<open>Runtime checking\<close>

text \<open>
  An iterator is a state and a step: the step yields an element and the next state, stops,
  or raises. A function named like \<^verbatim>\<open>__iter__\<close> is its \<^verbatim>\<open>__name__\<close>, the call
  \<^verbatim>\<open>f(self)\<close> that makes the iterator (for a generator function, without running any of
  its body) and the step of that iterator.
\<close>

datatype ('d, 's) step = Yield 'd 's | Stop | Raise exn

record ('d, 's, 't, 'x) iterfunction =
  it_name :: string
  it_call :: "addr \<Rightarrow> ('t, 'x) world \<Rightarrow> ('s, 't, 'x) outcome"
  it_next :: "'s \<Rightarrow> ('t, 'x) world \<Rightarrow> ('d, 's) step \<times> ('t, 'x) world"

text \<open>The wrapper is a generator function: the generator it returns has run nothing
  (\<open>Created\<close>) until its first step, which calls \<^verbatim>\<open>f(self)\<close> and enters the loop.\<close>

datatype 's wrapper_state = Created addr | Iterating addr 's

text \<open>One turn of \<^verbatim>\<open>for d in it\<close>, up to the \<^verbatim>\<open>yield\<close>. The first parameter is
  \<^verbatim>\<open>_DataPipeType.issubtype_of_instance\<close>; \<^verbatim>\<open>self.type\<close> is read at each element.\<close>

definition wrapper_loop ::
  "('t \<Rightarrow> 'd \<Rightarrow> bool) \<Rightarrow> ('d, 's, 't, 'x) iterfunction \<Rightarrow> addr \<Rightarrow> 's \<Rightarrow> ('t, 'x) world \<Rightarrow>
   ('d, 's wrapper_state) step \<times> ('t, 'x) world" where
  "wrapper_loop issubtype_of_instance f self it w =
     (case it_next f it w of
        (Yield d it', w') \<Rightarrow>
          if \<not> issubtype_of_instance (pipe_type w' self) d then (Raise TypeError, w')
          else (Yield d (Iterating self it'), w')
      | (Stop, w') \<Rightarrow> (Stop, w')
      | (Raise e, w') \<Rightarrow> (Raise e, w'))"

definition wrapper_next ::
  "('t \<Rightarrow> 'd \<Rightarrow> bool) \<Rightarrow> ('d, 's, 't, 'x) iterfunction \<Rightarrow> 's wrapper_state \<Rightarrow> ('t, 'x) world \<Rightarrow>
   ('d, 's wrapper_state) step \<times> ('t, 'x) world" where
  "wrapper_next issubtype_of_instance f g w =
     (case g of
        Created self \<Rightarrow>
          (case it_call f self w of
             (Inl e, w') \<Rightarrow> (Raise e, w')
           | (Inr it, w') \<Rightarrow> wrapper_loop issubtype_of_instance f self it w')
      | Iterating self it \<Rightarrow> wrapper_loop issubtype_of_instance f self it w)"

definition runtime_validation ::
  "('t \<Rightarrow> 'd \<Rightarrow> bool) \<Rightarrow> ('d, 's, 't, 'x) iterfunction \<Rightarrow>
   exn + ('d, 's wrapper_state, 't, 'x) iterfunction" where
  "runtime_validation issubtype_of_instance f =
     (if it_name f \<noteq> ''__iter__'' then Inl TypeError
      else Inr \<lparr>it_name = it_name f,
                it_call = (\<lambda>self w. (Inr (Created self), w)),
                it_next = wrapper_next issubtype_of_instance f\<rparr>)"

text \<open>
  What a consumer sees of an iterator in at most \<open>n\<close> steps: the elements yielded, each with
  the state in which it was yielded, how the iteration ended (\<open>Pending\<close> when \<open>n\<close> steps did
  not end it), and the state then.
\<close>

datatype ending = Pending | Exhausted | Raised exn

fun drain ::
  "nat \<Rightarrow> ('s \<Rightarrow> ('t, 'x) world \<Rightarrow> ('d, 's) step \<times> ('t, 'x) world) \<Rightarrow> 's \<Rightarrow> ('t, 'x) world \<Rightarrow>
   ('d \<times> ('t, 'x) world) list \<times> ending \<times> ('t, 'x) world" where
  "drain 0 nxt s w = ([], Pending, w)"
| "drain (Suc n) nxt s w =
     (case nxt s w of
        (Yield d s', w') \<Rightarrow>
          (case drain n nxt s' w' of (ds, e, w'') \<Rightarrow> ((d, w') # ds, e, w''))
      | (Stop, w') \<Rightarrow> ([], Exhausted, w')
      | (Raise e, w') \<Rightarrow> ([], Raised e, w'))"

text \<open>
  The iteration the claim describes, from what the unwrapped iterator does: the same
  elements up to, and not including, the first one that fails the check, and TypeError there
  (in the state in which that element was yielded); everything unchanged when none fails.
\<close>

definition cut_at_first_failure ::
  "('d \<times> ('t, 'x) world \<Rightarrow> bool) \<Rightarrow> ('d \<times> ('t, 'x) world) list \<times> ending \<times> ('t, 'x) world \<Rightarrow>
   ('d \<times> ('t, 'x) world) list \<times> ending \<times> ('t, 'x) world" where
  "cut_at_first_failure ok r =
     (case r of (ds, e, w) \<Rightarrow>
        if list_all ok ds then (ds, e, w)
        else (takeWhile ok ds, Raised TypeError, snd (hd (dropWhile ok ds))))"

section \<open>Example inputs\<close>

text \<open>A state with the flag off, fresh instances everywhere, and an empty log of the
  calls made to code outside the module.\<close>

definition world0 :: "(nat list, (string \<times> pyobj) list) world" where
  "world0 = \<lparr>determinism = False,
             nd_objs = (\<lambda>_. \<lparr>cls = None, deterministic_fn = None\<rparr>),
             pipe_type = (\<lambda>_. []),
             ext = []\<rparr>"

definition Mapper :: pyclass where
  "Mapper = PyClass ''Mapper'' [''IterDataPipe'', ''object'']"

definition Plain :: pyclass where
  "Plain = PyClass ''Plain'' [''object'']"

text \<open>A registration that logs the name and the object, and a call that logs the callee
  and returns a new pipeline instance for a class and True for anything else.\<close>

definition log_register ::
  "string \<Rightarrow> pyobj \<Rightarrow> ('t, (string \<times> pyobj) list) world \<Rightarrow> (unit, 't, (string \<times> pyobj) list) outcome" where
  "log_register nm obj w = (Inr (), w\<lparr>ext := ext w @ [(nm, obj)]\<rparr>)"

definition log_call :: "('t, (string \<times> pyobj) list) pycall" where
  "log_call f args w =
     (Inr (if isinstance_Type f then PipeObj (length (ext w)) else BoolObj True),
      w\<lparr>ext := ext w @ [(''call'', f)]\<rparr>)"

text \<open>A call that raises TypeError whatever is called (a class whose constructor takes an
  argument more than it is given), and the state after \<^verbatim>\<open>non_deterministic(Mapper)\<close> has
  initialised the instance at address 0.\<close>

definition raising_call :: "('t, 'x) pycall" where
  "raising_call f args w = (Inl TypeError, w)"

definition world_cls :: "(nat list, (string \<times> pyobj) list) world" where
  "world_cls = snd (non_deterministic_init 0 (ClassObj Mapper) world0)"

text \<open>The state after \<^verbatim>\<open>non_deterministic(fn)\<close> has initialised the instance at address 0
  with a function, and the state after that instance has then been applied to \<open>Mapper\<close>.\<close>

definition world_fn :: "(nat list, (string \<times> pyobj) list) world" where
  "world_fn = snd (non_deterministic_init 0 (FunctionObj ''fn'') world0)"

definition world_fn_cls :: "(nat list, (string \<times> pyobj) list) world" where
  "world_fn_cls = snd (non_deterministic_call log_call 0 ([ClassObj Mapper], []) world_fn)"

text \<open>
  For the type checks: a \<^verbatim>\<open>_DataPipeType\<close> is the list of the members of a union, a subtype
  is a sublist as sets, and an instance of a type is a member. The pipeline instances
  0, 1 and 2 have the types \<open>[0]\<close>, \<open>[5]\<close> and \<open>[1, 2]\<close>, every other one \<open>[2]\<close>.
\<close>

definition subset_type :: "nat list \<Rightarrow> nat list \<Rightarrow> bool" where
  "subset_type t u = (set t \<subseteq> set u)"

definition member_type :: "nat list \<Rightarrow> nat \<Rightarrow> bool" where
  "member_type t d = (d \<in> set t)"

definition world_pipes :: "(nat list, (string \<times> pyobj) list) world" where
  "world_pipes =
     world0\<lparr>pipe_type :=
       (\<lambda>a. if a = 0 then [0] else if a = 1 then [5] else if a = 2 then [1, 2] else [2])\<rparr>"

text \<open>\<^verbatim>\<open>def __init__(self, a: IterDataPipe[Union[T0, T1]], b: IterDataPipe[Union[T0, T2]])\<close>,
  called with positional arguments only, and the same function under another name.\<close>

definition init3_hints :: "string \<Rightarrow> nat list hint option" where
  "init3_hints = [''a'' \<mapsto> DataPipeHint [0, 1], ''b'' \<mapsto> DataPipeHint [0, 2]]"

definition init3 :: "(nat list, (string \<times> pyobj) list) pyfunction" where
  "init3 = \<lparr>fn_name = ''__init__'',
            fn_bind = (\<lambda>args. if length (fst args) = 3 \<and> snd args = []
                              then Inr (zip [''self'', ''a'', ''b''] (fst args))
                              else Inl TypeError),
            fn_hints = Inr init3_hints,
            fn_call = (\<lambda>args w. (Inr NoneObj, w\<lparr>ext := ext w @ [(''__init__'', NoneObj)]\<rparr>))\<rparr>"

definition init3_validated :: "(nat list, (string \<times> pyobj) list) pyfunction" where
  "init3_validated = init3\<lparr>fn_call := construct_time_wrapper subset_type init3 init3_hints\<rparr>"

text \<open>Calls of it: the same pipeline instance passed twice; two instances, the second of
  a type outside its hint; two instances within their hints.\<close>

definition aliased_args :: pyargs where
  "aliased_args = ([PipeObj 2, PipeObj 0, PipeObj 0], [])"

definition failing_args :: pyargs where
  "failing_args = ([PipeObj 2, PipeObj 0, PipeObj 1], [])"

definition passing_args :: pyargs where
  "passing_args = ([PipeObj 2, PipeObj 0, PipeObj 3], [])"

definition forward_fn :: "(nat list, (string \<times> pyobj) list) pyfunction" where
  "forward_fn = init3\<lparr>fn_name := ''forward''\<rparr>"

text \<open>A generator function \<^verbatim>\<open>__iter__\<close> that yields 1, 2, 7, 1, and the same under another
  name.\<close>

definition list_iter :: "(nat, nat list, nat list, (string \<times> pyobj) list) iterfunction" where
  "list_iter = \<lparr>it_name = ''__iter__'',
                it_call = (\<lambda>self w. (Inr [1, 2, 7, 1], w)),
                it_next = (\<lambda>s w. case s of [] \<Rightarrow> (Stop, w) | x # r \<Rightarrow> (Yield x r, w))\<rparr>"

definition getitem_fn :: "(nat, nat list, nat list, (string \<times> pyobj) list) iterfunction" where
  "getitem_fn = list_iter\<lparr>it_name := ''__getitem__''\<rparr>"

section \<open>Properties of the determinism flag\<close>

lemma with_determinism_flag:
  "determinism (snd (with_guaranteed_datapipes_determinism body w)) = determinism w"
  by (simp add: with_guaranteed_datapipes_determinism_def guaranteed_datapipes_determinism_init_def
      guaranteed_datapipes_determinism_exit_def split: prod.splits)

lemma with_determinism_body:
  "fst (with_guaranteed_datapipes_determinism body w) = fst (body (w\<lparr>determinism := True\<rparr>))"
  by (simp add: with_guaranteed_datapipes_determinism_def guaranteed_datapipes_determinism_init_def
      guaranteed_datapipes_determinism_enter_def split: prod.splits)

text \<open>
  C2. Constructing \<^verbatim>\<open>guaranteed_datapipes_determinism()\<close> stores the prior value of the
  flag in \<open>prev\<close> and sets the flag to True; \<^verbatim>\<open>__exit__\<close> sets the flag to \<open>prev\<close>
  whatever the state it runs in and whether or not the body raised; so a
  \<^verbatim>\<open>with\<close> statement leaves the flag as it found it whatever its body does, and so do
  \<open>n + 1\<close> nested ones, each level restoring the value it found.
\<close>

theorem guaranteed_determinism_round_trip:
  "prev (fst (guaranteed_datapipes_determinism_init w)) = determinism w
   \<and> determinism (snd (guaranteed_datapipes_determinism_init w)) = True
   \<and> determinism (guaranteed_datapipes_determinism_exit
         (fst (guaranteed_datapipes_determinism_init w)) exc w') = determinism w
   \<and> determinism (snd (with_guaranteed_datapipes_determinism body w)) = determinism w
   \<and> determinism (snd (nested_determinism (Suc n) body w)) = determinism w
   \<and> determinism (snd (with_guaranteed_datapipes_determinism
         (with_guaranteed_datapipes_determinism body) w)) = determinism w"
  by (simp add: with_determinism_flag)
    (simp add: guaranteed_datapipes_determinism_init_def guaranteed_datapipes_determinism_exit_def)

section \<open>Properties of the functional API\<close>

text \<open>
  C1. For a class \<open>c\<close> that is a subclass of IterDataPipe, \<^verbatim>\<open>functional_datapipe(nm)(c)\<close>
  makes exactly the call \<^verbatim>\<open>IterDataPipe.register_datapipe_as_function(nm, c)\<close> and,
  when that call returns, returns \<open>c\<close> itself in the state the registration left; an
  exception of the registration propagates.
\<close>

theorem functional_datapipe_registers_class:
  assumes "issubclass c IterDataPipe"
  shows "functional_datapipe_call reg (functional_datapipe_init nm) (ClassObj c) w =
         (case reg nm (ClassObj c) w of
            (Inl e, w') \<Rightarrow> (Inl e, w')
          | (Inr u, w') \<Rightarrow> (Inr (ClassObj c), w'))"
  using assms by (simp add: functional_datapipe_call_def functional_datapipe_init_def)

theorem functional_datapipe_registers_class_witness:
  "issubclass Mapper IterDataPipe \<and>
   functional_datapipe_call log_register (functional_datapipe_init ''map'') (ClassObj Mapper) world0 =
     (Inr (ClassObj Mapper), world0\<lparr>ext := [(''map'', ClassObj Mapper)]\<rparr>)"
proof -
  have h: "issubclass Mapper IterDataPipe"
    by (simp add: issubclass_def Mapper_def IterDataPipe_def)
  show ?thesis
    using h functional_datapipe_registers_class [OF h, of log_register "''map''" world0]
    by (simp add: log_register_def world0_def)
qed

text \<open>
  C8. \<^verbatim>\<open>functional_datapipe(name)(obj)\<close> raises TypeError and leaves the state as it was,
  whatever the registration function is (so it is not called), when \<open>obj\<close> is a class that
  is not a subclass of IterDataPipe, and when \<open>obj\<close> is not a class, not an instance of
  \<^verbatim>\<open>non_deterministic\<close> and has no \<^verbatim>\<open>__self__\<close> that is one. When \<open>obj\<close> is such an
  instance or has such a \<^verbatim>\<open>__self__\<close> the checks pass and the registration is called.
\<close>

theorem functional_datapipe_rejects:
  "(\<not> issubclass c IterDataPipe \<longrightarrow>
      functional_datapipe_call reg self (ClassObj c) w = (Inl TypeError, w))
   \<and> (\<not> isinstance_Type obj \<and> \<not> isinstance_non_deterministic obj \<and>
       (\<forall>s. self_attr obj = Some s \<longrightarrow> \<not> isinstance_non_deterministic s) \<longrightarrow>
      functional_datapipe_call reg self obj w = (Inl TypeError, w))
   \<and> (isinstance_non_deterministic obj \<or>
       (\<exists>s. self_attr obj = Some s \<and> isinstance_non_deterministic s) \<longrightarrow>
      functional_datapipe_call reg self obj w =
        (case reg (name self) obj w of
           (Inl e, w') \<Rightarrow> (Inl e, w')
         | (Inr u, w') \<Rightarrow> (Inr obj, w')))"
  by (cases obj)
    (auto simp: functional_datapipe_call_def isinstance_Type_def isinstance_non_deterministic_def
      self_attr_def split: option.splits pyobj.splits)

theorem functional_datapipe_rejects_witness:
  "\<not> issubclass Plain IterDataPipe
   \<and> functional_datapipe_call log_register (functional_datapipe_init ''map'') (ClassObj Plain) world0
       = (Inl TypeError, world0)
   \<and> functional_datapipe_call log_register (functional_datapipe_init ''map'') (FunctionObj ''f'') world0
       = (Inl TypeError, world0)
   \<and> functional_datapipe_call log_register (functional_datapipe_init ''map'')
         (MethodObj (PipeObj 0) ''m'') world0
       = (Inl TypeError, world0)
   \<and> fst (functional_datapipe_call log_register (functional_datapipe_init ''map'')
         (MethodObj (NonDetObj 0) ''deterministic_wrapper_fn'') world0)
       = Inr (MethodObj (NonDetObj 0) ''deterministic_wrapper_fn'')"
proof -
  have h: "\<not> issubclass Plain IterDataPipe"
    by (simp add: issubclass_def Plain_def IterDataPipe_def)
  show ?thesis
    using h
      functional_datapipe_rejects [of Plain log_register "functional_datapipe_init ''map''"
        world0 "FunctionObj ''f''"]
      functional_datapipe_rejects [of Plain log_register "functional_datapipe_init ''map''"
        world0 "MethodObj (PipeObj 0) ''m''"]
      functional_datapipe_rejects [of Plain log_register "functional_datapipe_init ''map''"
        world0 "MethodObj (NonDetObj 0) ''deterministic_wrapper_fn''"]
    by (simp add: isinstance_Type_def isinstance_non_deterministic_def self_attr_def
        log_register_def)
qed

section \<open>Properties of non_deterministic\<close>

lemma non_deterministic_init_class:
  "issubclass c IterDataPipe \<Longrightarrow>
   non_deterministic_init self (ClassObj c) w =
     (Inr (), w\<lparr>nd_objs := (nd_objs w)(self := (nd_objs w self)\<lparr>cls := Some c\<rparr>)\<rparr>)"
  by (simp add: non_deterministic_init_def)

lemma non_deterministic_init_callable:
  "\<not> isinstance_Type arg \<Longrightarrow> isinstance_Callable arg \<Longrightarrow>
   non_deterministic_init self arg w =
     (Inr (), w\<lparr>nd_objs := (nd_objs w)(self := (nd_objs w self)\<lparr>deterministic_fn := Some arg\<rparr>)\<rparr>)"
  by (cases arg) (simp_all add: non_deterministic_init_def isinstance_Type_def)

text \<open>
  C3, as stated, fails: with the flag False the call is the call of the class, and a class
  whose constructor raises TypeError makes the call raise TypeError although the flag is
  False.
\<close>

theorem non_deterministic_call_constructor_raises:
  "cls (nd_objs world_cls 0) = Some Mapper
   \<and> \<not> determinism world_cls
   \<and> non_deterministic_call raising_call 0 ([], []) world_cls = (Inl TypeError, world_cls)"
  by (simp add: world_cls_def non_deterministic_init_def non_deterministic_call_def
      raising_call_def world0_def issubclass_def Mapper_def IterDataPipe_def)

text \<open>
  C3, amended. For an instance of \<^verbatim>\<open>non_deterministic\<close> whose \<open>cls\<close> is set, a call raises
  TypeError in the unchanged state, whatever calling the class would do, when the flag is
  True, and is the call of the class when the flag is False. So the call raises TypeError
  exactly when the flag is True or the call of the class raises TypeError; it raises
  TypeError on its own account (for every behaviour of the class) exactly when the flag is
  True; and both hold alike for every other instance whose \<open>cls\<close> is set.
\<close>

theorem non_deterministic_call_decorated_class:
  assumes "cls (nd_objs w self) = Some c"
  shows "non_deterministic_call call self args w =
           (if determinism w then (Inl TypeError, w) else call (ClassObj c) args w)
         \<and> ((fst (non_deterministic_call call self args w) = Inl TypeError)
              = (determinism w \<or> fst (call (ClassObj c) args w) = Inl TypeError))
         \<and> (\<forall>other c' args'. cls (nd_objs w other) = Some c' \<longrightarrow>
              non_deterministic_call call other args' w =
                (if determinism w then (Inl TypeError, w) else call (ClassObj c') args' w))
         \<and> ((\<forall>call'. non_deterministic_call call' self args w = (Inl TypeError, w))
              = determinism w)
         \<and> (\<forall>other c' args'. cls (nd_objs w other) = Some c' \<longrightarrow>
              (\<forall>call'. non_deterministic_call call' other args' w = (Inl TypeError, w))
              = (\<forall>call'. non_deterministic_call call' self args w = (Inl TypeError, w)))"
proof -
  have eq: "\<And>call' s a k. cls (nd_objs w s) = Some k \<Longrightarrow>
      non_deterministic_call call' s a w =
        (if determinism w then (Inl TypeError, w) else call' (ClassObj k) a w)"
    by (simp add: non_deterministic_call_def)
  have iff: "\<And>s a k. cls (nd_objs w s) = Some k \<Longrightarrow>
      (\<forall>call'. non_deterministic_call call' s a w = (Inl TypeError, w)) = determinism w"
  proof -
    fix s a k
    assume k: "cls (nd_objs w s) = Some k"
    show "(\<forall>call'. non_deterministic_call call' s a w = (Inl TypeError, w)) = determinism w"
    proof
      assume all: "\<forall>call'. non_deterministic_call call' s a w = (Inl TypeError, w)"
      show "determinism w"
      proof (rule ccontr)
        assume off: "\<not> determinism w"
        from all have "non_deterministic_call (\<lambda>f a w. (Inr NoneObj, w)) s a w = (Inl TypeError, w)"
          by blast
        with off k show False by (simp add: eq)
      qed
    next
      assume "determinism w"
      with k show "\<forall>call'. non_deterministic_call call' s a w = (Inl TypeError, w)"
        by (simp add: eq)
    qed
  qed
  have a: "non_deterministic_call call self args w =
      (if determinism w then (Inl TypeError, w) else call (ClassObj c) args w)"
    using assms by (rule eq)
  have a': "(fst (non_deterministic_call call self args w) = Inl TypeError)
      = (determinism w \<or> fst (call (ClassObj c) args w) = Inl TypeError)"
    by (simp add: a)
  have a'': "\<forall>other c' args'. cls (nd_objs w other) = Some c' \<longrightarrow>
      non_deterministic_call call other args' w =
        (if determinism w then (Inl TypeError, w) else call (ClassObj c') args' w)"
    by (intro allI impI) (rule eq)
  have b: "(\<forall>call'. non_deterministic_call call' self args w = (Inl TypeError, w))
      = determinism w"
    using assms by (rule iff)
  have c: "\<forall>other c' args'. cls (nd_objs w other) = Some c' \<longrightarrow>
      (\<forall>call'. non_deterministic_call call' other args' w = (Inl TypeError, w))
      = (\<forall>call'. non_deterministic_call call' self args w = (Inl TypeError, w))"
  proof (intro allI impI)
    fix other c' args'
    assume "cls (nd_objs w other) = Some c'"
    then have "(\<forall>call'. non_deterministic_call call' other args' w = (Inl TypeError, w))
        = determinism w"
      by (rule iff)
    with b show "(\<forall>call'. non_deterministic_call call' other args' w = (Inl TypeError, w))
        = (\<forall>call'. non_deterministic_call call' self args w = (Inl TypeError, w))"
      by (simp only:)
  qed
  show ?thesis by (rule conjI [OF a conjI [OF a' conjI [OF a'' conjI [OF b c]]]])
qed

theorem non_deterministic_call_decorated_class_witness:
  "cls (nd_objs (snd (non_deterministic_init 0 (ClassObj Mapper) world0)) 0) = Some Mapper
   \<and> fst (non_deterministic_call log_call 0 ([], [])
        (snd (non_deterministic_init 0 (ClassObj Mapper) world0))) = Inr (PipeObj 0)
   \<and> fst (non_deterministic_call log_call 0 ([], [])
        (snd (non_deterministic_init 0 (ClassObj Mapper) (world0\<lparr>determinism := True\<rparr>))))
      = Inl TypeError"
proof -
  have m: "issubclass Mapper IterDataPipe"
    by (simp add: issubclass_def Mapper_def IterDataPipe_def)
  have h: "cls (nd_objs (snd (non_deterministic_init 0 (ClassObj Mapper) w)) 0) = Some Mapper"
    for w :: "(nat list, (string \<times> pyobj) list) world"
    by (simp add: non_deterministic_init_class [OF m])
  show ?thesis
    using h [of world0]
      non_deterministic_call_decorated_class [OF h [of world0], of log_call "([], [])"]
      non_deterministic_call_decorated_class
        [OF h [of "world0\<lparr>determinism := True\<rparr>"], of log_call "([], [])"]
    by (simp add: non_deterministic_init_class [OF m] log_call_def isinstance_Type_def
        world0_def)
qed

lemma world_fn_fields:
  "deterministic_fn (nd_objs world_fn 0) = Some (FunctionObj ''fn'')"
  "cls (nd_objs world_fn 0) = None"
  "determinism world_fn = False"
  "ext world_fn = []"
  by (simp_all add: world_fn_def world0_def non_deterministic_init_def isinstance_Callable_def)

lemma world_fn_cls_fields:
  "deterministic_fn (nd_objs world_fn_cls 0) = Some (FunctionObj ''fn'')"
  "cls (nd_objs world_fn_cls 0) = Some Mapper"
  "determinism world_fn_cls = False"
  "ext world_fn_cls = []"
  by (simp_all add: world_fn_cls_def non_deterministic_call_def world_fn_fields issubclass_def
      Mapper_def IterDataPipe_def)

text \<open>
  C4, as stated, fails: on an instance made from a function and not yet applied to a class,
  \<^verbatim>\<open>self.cls\<close> is None; with the flag True and \<^verbatim>\<open>deterministic_fn\<close> returning True the
  message of the TypeError is built from \<^verbatim>\<open>self.cls.__name__\<close>, and the call raises
  AttributeError instead.
\<close>

theorem deterministic_wrapper_fn_without_cls:
  "determinism (world_fn\<lparr>determinism := True\<rparr>)
   \<and> fst (log_call (FunctionObj ''fn'') ([], []) (world_fn\<lparr>determinism := True\<rparr>))
       = Inr (BoolObj True)
   \<and> fst (deterministic_wrapper_fn log_call 0 ([], []) (world_fn\<lparr>determinism := True\<rparr>))
       = Inl AttributeError"
  by (simp add: deterministic_wrapper_fn_def log_call_def world_fn_fields isinstance_Type_def
      isinstance_bool_def)

text \<open>
  C4, amended. On an instance whose \<^verbatim>\<open>deterministic_fn\<close> is \<open>fn\<close> and whose \<open>cls\<close> is set
  when the call of \<open>fn\<close> returns: the call first evaluates \<open>fn\<close> on the arguments (an
  exception of it propagates); it raises TypeError if the result is not a bool; otherwise
  it raises TypeError if the flag is True and the result is True; otherwise it is the call
  of the class. On both error paths the state is the one the call of \<open>fn\<close> left, so the class
  is not called.
\<close>

theorem deterministic_wrapper_fn_outcome:
  assumes "deterministic_fn (nd_objs w self) = Some fn"
    and "call fn args w = (r, w1)"
    and "cls (nd_objs w1 self) = Some c"
  shows "deterministic_wrapper_fn call self args w =
     (case r of
        Inl e \<Rightarrow> (Inl e, w1)
      | Inr res \<Rightarrow>
          if \<not> isinstance_bool res then (Inl TypeError, w1)
          else if determinism w1 \<and> res = BoolObj True then (Inl TypeError, w1)
          else call (ClassObj c) args w1)"
  using assms by (simp add: deterministic_wrapper_fn_def split: sum.splits)

theorem deterministic_wrapper_fn_outcome_witness:
  "deterministic_fn (nd_objs world_fn_cls 0) = Some (FunctionObj ''fn'')
   \<and> cls (nd_objs world_fn_cls 0) = Some Mapper
   \<and> fst (deterministic_wrapper_fn log_call 0 ([], []) world_fn_cls) = Inr (PipeObj 1)
   \<and> deterministic_wrapper_fn log_call 0 ([], []) (world_fn_cls\<lparr>determinism := True\<rparr>)
       = (Inl TypeError, world_fn_cls\<lparr>determinism := True, ext := [(''call'', FunctionObj ''fn'')]\<rparr>)"
proof -
  have c1: "log_call (FunctionObj ''fn'') ([], []) world_fn_cls =
      (Inr (BoolObj True), world_fn_cls\<lparr>ext := [(''call'', FunctionObj ''fn'')]\<rparr>)"
    by (simp add: log_call_def isinstance_Type_def world_fn_cls_fields)
  have c2: "log_call (FunctionObj ''fn'') ([], []) (world_fn_cls\<lparr>determinism := True\<rparr>) =
      (Inr (BoolObj True),
       world_fn_cls\<lparr>determinism := True, ext := [(''call'', FunctionObj ''fn'')]\<rparr>)"
    by (simp add: log_call_def isinstance_Type_def world_fn_cls_fields)
  show ?thesis
    using
      deterministic_wrapper_fn_outcome [where w = world_fn_cls and self = 0
        and fn = "FunctionObj ''fn''" and call = log_call and args = "([], [])"
        and c = Mapper, OF _ c1]
      deterministic_wrapper_fn_outcome [where w = "world_fn_cls\<lparr>determinism := True\<rparr>"
        and self = 0 and fn = "FunctionObj ''fn''" and call = log_call and args = "([], [])"
        and c = Mapper, OF _ c2]
    by (simp add: world_fn_cls_fields isinstance_bool_def log_call_def isinstance_Type_def)
qed

text \<open>
  C10. In the functional form (\<open>cls\<close> still None) a call whose first positional argument is
  a subclass of IterDataPipe stores the class and returns the bound method
  \<^verbatim>\<open>deterministic_wrapper_fn\<close>; the next call of the instance takes the class branch. A first
  argument that is not such a class but has a \<^verbatim>\<open>__name__\<close> raises TypeError.
\<close>

lemma non_deterministic_call_functional:
  assumes "cls (nd_objs w self) = None" and "issubclass c IterDataPipe"
  shows "non_deterministic_call call self (ClassObj c # rest, kw) w =
           (Inr (MethodObj (NonDetObj self) ''deterministic_wrapper_fn''),
            w\<lparr>nd_objs := (nd_objs w)(self := (nd_objs w self)\<lparr>cls := Some c\<rparr>)\<rparr>)"
    and "non_deterministic_call call self args'
           (snd (non_deterministic_call call self (ClassObj c # rest, kw) w)) =
           (let w' = snd (non_deterministic_call call self (ClassObj c # rest, kw) w)
            in if determinism w' then (Inl TypeError, w') else call (ClassObj c) args' w')"
  using assms by (simp_all add: non_deterministic_call_def Let_def)

lemma non_deterministic_call_named_not_pipe:
  assumes "cls (nd_objs w self) = None"
    and "\<not> (\<exists>c. a0 = ClassObj c \<and> issubclass c IterDataPipe)"
    and "name_attr a0 = Inr n"
  shows "non_deterministic_call call self (a0 # rest, kw) w = (Inl TypeError, w)"
  using assms by (cases a0) (simp_all add: non_deterministic_call_def)

text \<open>
  C10 at the input \<^verbatim>\<open>non_deterministic(fn)(5)\<close>: the first positional argument is not a
  class, the message of the TypeError is built from \<^verbatim>\<open>args[0].__name__\<close>, an int has no
  such attribute, and the call raises AttributeError, not TypeError.
\<close>

theorem non_deterministic_call_nameless_argument:
  "cls (nd_objs world_fn 0) = None
   \<and> \<not> isinstance_Type (IntObj 5)
   \<and> non_deterministic_call log_call 0 ([IntObj 5], []) world_fn = (Inl AttributeError, world_fn)"
  by (simp add: non_deterministic_call_def world_fn_fields isinstance_Type_def name_attr_def)

section \<open>Properties of the decoration-time checks\<close>

text \<open>
  C7. \<^verbatim>\<open>construct_time_validation(f)\<close> raises TypeError for every \<open>f\<close> whose name is neither
  \<^verbatim>\<open>__init__\<close> nor \<^verbatim>\<open>__new__\<close>, and \<^verbatim>\<open>runtime_validation(g)\<close> raises TypeError for every \<open>g\<close> whose
  name is not \<^verbatim>\<open>__iter__\<close>; each returns a wrapper only for the permitted names, and does
  return it for them (for \<^verbatim>\<open>construct_time_validation\<close>, when the type hints of \<open>f\<close> can be
  read).
\<close>

theorem validation_decorators_check_name:
  "(fn_name f \<noteq> ''__init__'' \<and> fn_name f \<noteq> ''__new__'' \<longrightarrow>
      construct_time_validation issubtype f = Inl TypeError)
   \<and> (it_name g \<noteq> ''__iter__'' \<longrightarrow> runtime_validation chk g = Inl TypeError)
   \<and> (construct_time_validation issubtype f = Inr wrapped \<longrightarrow>
      fn_name f = ''__init__'' \<or> fn_name f = ''__new__'')
   \<and> (runtime_validation chk g = Inr wrapped_it \<longrightarrow> it_name g = ''__iter__'')
   \<and> ((fn_name f = ''__init__'' \<or> fn_name f = ''__new__'') \<and> fn_hints f = Inr hints \<longrightarrow>
      construct_time_validation issubtype f =
        Inr (f\<lparr>fn_call := construct_time_wrapper issubtype f hints\<rparr>))
   \<and> (it_name g = ''__iter__'' \<longrightarrow>
      runtime_validation chk g =
        Inr \<lparr>it_name = ''__iter__'', it_call = (\<lambda>self w. (Inr (Created self), w)),
             it_next = wrapper_next chk g\<rparr>)"
  by (auto simp: construct_time_validation_def runtime_validation_def split: sum.splits)

theorem validation_decorators_check_name_witness:
  "construct_time_validation subset_type forward_fn = Inl TypeError
   \<and> runtime_validation member_type getitem_fn = Inl TypeError
   \<and> fn_name (projr (construct_time_validation subset_type init3)) = ''__init__''
   \<and> it_name (projr (runtime_validation member_type list_iter)) = ''__iter__''"
  using validation_decorators_check_name [of forward_fn subset_type getitem_fn member_type]
    validation_decorators_check_name [of init3 subset_type list_iter member_type _ _
      init3_hints]
  by (simp add: forward_fn_def getitem_fn_def init3_def list_iter_def)

section \<open>Properties of the runtime check\<close>

lemma cut_Cons_ok:
  "ok x \<Longrightarrow> cut_at_first_failure ok (x # ds, e, w) =
     (case cut_at_first_failure ok (ds, e, w) of (ds', e', w') \<Rightarrow> (x # ds', e', w'))"
  by (simp add: cut_at_first_failure_def)

lemma cut_Cons_fail:
  "\<not> ok x \<Longrightarrow> cut_at_first_failure ok (x # ds, e, w) = ([], Raised TypeError, snd x)"
  by (simp add: cut_at_first_failure_def)

lemma cut_Nil: "cut_at_first_failure ok ([], e, w) = ([], e, w)"
  by (simp add: cut_at_first_failure_def)

lemma drain_iterating:
  "drain n (wrapper_next chk f) (Iterating self g) w =
   cut_at_first_failure (\<lambda>(d, w'). chk (pipe_type w' self) d) (drain n (it_next f) g w)"
proof (induction n arbitrary: g w)
  case 0
  show ?case by (simp add: cut_Nil)
next
  case (Suc n)
  obtain st w' where nx: "it_next f g w = (st, w')" by (cases "it_next f g w")
  show ?case
  proof (cases st)
    case (Yield d g')
    show ?thesis
    proof (cases "chk (pipe_type w' self) d")
      case True
      with nx Yield Suc.IH [of g' w'] show ?thesis
        by (simp add: wrapper_next_def wrapper_loop_def cut_Cons_ok split: prod.splits)
    next
      case False
      with nx Yield show ?thesis
        by (simp add: wrapper_next_def wrapper_loop_def cut_Cons_fail split: prod.splits)
    qed
  next
    case Stop
    with nx show ?thesis by (simp add: wrapper_next_def wrapper_loop_def cut_Nil)
  next
    case (Raise e)
    with nx show ?thesis by (simp add: wrapper_next_def wrapper_loop_def cut_Nil)
  qed
qed

lemma drain_created:
  assumes "it_call f self w = (Inr g, w)"
  shows "drain n (wrapper_next chk f) (Created self) w =
   cut_at_first_failure (\<lambda>(d, w'). chk (pipe_type w' self) d) (drain n (it_next f) g w)"
proof (cases n)
  case 0
  then show ?thesis by (simp add: cut_Nil)
next
  case (Suc m)
  have "drain (Suc m) (wrapper_next chk f) (Created self) w =
        drain (Suc m) (wrapper_next chk f) (Iterating self g) w"
    using assms by (simp add: wrapper_next_def)
  with Suc show ?thesis by (simp only: drain_iterating)
qed

text \<open>
  C6. For a generator function \<open>f\<close> named \<^verbatim>\<open>__iter__\<close> (calling it makes the iterator \<open>g\<close>
  and runs nothing), the iterator of the wrapper, observed for any number \<open>n\<close> of steps,
  yields the elements of \<open>f(self)\<close> unchanged and in order up to, and not including, the
  first one that fails \<^verbatim>\<open>self.type.issubtype_of_instance\<close>, and raises TypeError there; when
  no element fails, it yields and ends exactly as the unwrapped iterator does.
\<close>

theorem runtime_validation_yields_checked_prefix:
  assumes "runtime_validation chk f = Inr wrapped"
    and "it_call f self w = (Inr g, w)"
  shows "it_call wrapped self w = (Inr (Created self), w)
    \<and> drain n (it_next wrapped) (Created self) w =
        cut_at_first_failure (\<lambda>(d, w'). chk (pipe_type w' self) d) (drain n (it_next f) g w)
    \<and> (list_all (\<lambda>(d, w'). chk (pipe_type w' self) d) (fst (drain n (it_next f) g w)) \<longrightarrow>
        drain n (it_next wrapped) (Created self) w = drain n (it_next f) g w)
    \<and> (\<not> list_all (\<lambda>(d, w'). chk (pipe_type w' self) d) (fst (drain n (it_next f) g w)) \<longrightarrow>
        fst (drain n (it_next wrapped) (Created self) w) =
          takeWhile (\<lambda>(d, w'). chk (pipe_type w' self) d) (fst (drain n (it_next f) g w))
        \<and> fst (snd (drain n (it_next wrapped) (Created self) w)) = Raised TypeError)"
proof -
  from assms(1) have wrapped: "wrapped = \<lparr>it_name = it_name f,
      it_call = (\<lambda>self w. (Inr (Created self), w)), it_next = wrapper_next chk f\<rparr>"
    by (simp add: runtime_validation_def split: if_splits)
  have d: "drain n (it_next wrapped) (Created self) w =
      cut_at_first_failure (\<lambda>(d, w'). chk (pipe_type w' self) d) (drain n (it_next f) g w)"
    using drain_created [OF assms(2)] by (simp add: wrapped)
  show ?thesis
    unfolding d by (cases "drain n (it_next f) g w") (simp add: wrapped cut_at_first_failure_def)
qed

theorem runtime_validation_yields_checked_prefix_witness:
  "drain (Suc (Suc (Suc (Suc (Suc 0))))) (wrapper_next member_type list_iter) (Created 2)
     world_pipes =
     ([(1, world_pipes), (2, world_pipes)], Raised TypeError, world_pipes)
   \<and> drain (Suc (Suc (Suc (Suc (Suc 0))))) (it_next list_iter) [1, 2, 7, 1] world_pipes =
     ([(1, world_pipes), (2, world_pipes), (7, world_pipes), (1, world_pipes)], Exhausted,
      world_pipes)"
proof -
  have rv: "runtime_validation member_type list_iter =
      Inr \<lparr>it_name = ''__iter__'', it_call = (\<lambda>self w. (Inr (Created self), w)),
           it_next = wrapper_next member_type list_iter\<rparr>"
    by (simp add: runtime_validation_def list_iter_def)
  have c: "it_call list_iter 2 world_pipes = (Inr [1, 2, 7, 1], world_pipes)"
    by (simp add: list_iter_def)
  have t: "pipe_type world_pipes 2 = [1, 2]"
    by (simp add: world_pipes_def)
  have u: "drain (Suc (Suc (Suc (Suc (Suc 0))))) (it_next list_iter) [1, 2, 7, 1] world_pipes =
     ([(1, world_pipes), (2, world_pipes), (7, world_pipes), (1, world_pipes)], Exhausted,
      world_pipes)"
    by (simp add: list_iter_def)
  show ?thesis
    using runtime_validation_yields_checked_prefix
      [OF rv c, of "Suc (Suc (Suc (Suc (Suc 0))))"]
    unfolding u by (simp add: cut_at_first_failure_def member_type_def t)
qed

section \<open>Properties of the construct-time check\<close>

lemma bound_cases:
  obtains (unhinted) "\<And>ht. hints n \<noteq> Some (DataPipeHint ht)"
  | (not_pipe) ht where "hints n = Some (DataPipeHint ht)" "\<And>a. v \<noteq> PipeObj a"
  | (pipe) ht a where "hints n = Some (DataPipeHint ht)" "v = PipeObj a"
proof (cases "hints n")
  case None
  then show ?thesis using unhinted by simp
next
  case (Some h)
  show ?thesis
  proof (cases h)
    case OtherHint
    with Some show ?thesis using unhinted by simp
  next
    case (DataPipeHint ht)
    with Some show ?thesis using not_pipe pipe by (cases v) auto
  qed
qed

lemma validate_unhinted:
  "(\<And>ht. hints n \<noteq> Some (DataPipeHint ht)) \<Longrightarrow>
   validate_arguments chk hints ((n, v) # rest) w = validate_arguments chk hints rest w"
  by (cases "hints n"; simp split: hint.splits)

lemma validate_not_pipe:
  "hints n = Some (DataPipeHint ht) \<Longrightarrow> (\<And>a. v \<noteq> PipeObj a) \<Longrightarrow>
   validate_arguments chk hints ((n, v) # rest) w = (Inl TypeError, w)"
  by (cases v) auto

lemma validate_pipe:
  "hints n = Some (DataPipeHint ht) \<Longrightarrow>
   validate_arguments chk hints ((n, PipeObj a) # rest) w =
     (if \<not> chk (pipe_type w a) ht then (Inl TypeError, w)
      else validate_arguments chk hints rest (w\<lparr>pipe_type := (pipe_type w)(a := ht)\<rparr>))"
  by (cases "pipe_type w a = ht") auto

lemma hinted_pipes_unhinted:
  "(\<And>ht. hints n \<noteq> Some (DataPipeHint ht)) \<Longrightarrow>
   hinted_pipes hints ((n, v) # rest) = hinted_pipes hints rest"
  by (cases "hints n"; simp split: hint.splits)

lemma hinted_pipes_not_pipe:
  "hints n = Some (DataPipeHint ht) \<Longrightarrow> (\<And>a. v \<noteq> PipeObj a) \<Longrightarrow>
   hinted_pipes hints ((n, v) # rest) = hinted_pipes hints rest"
  by (cases v) auto

lemma hinted_pipes_pipe:
  "hints n = Some (DataPipeHint ht) \<Longrightarrow>
   hinted_pipes hints ((n, PipeObj a) # rest) = a # hinted_pipes hints rest"
  by simp

lemma violates_unhinted:
  "(\<And>ht. hints n \<noteq> Some (DataPipeHint ht)) \<Longrightarrow> \<not> violates chk hints w (n, v)"
  by (cases "hints n"; simp add: violates_def split: hint.splits)

lemma violates_not_pipe:
  "hints n = Some (DataPipeHint ht) \<Longrightarrow> (\<And>a. v \<noteq> PipeObj a) \<Longrightarrow> violates chk hints w (n, v)"
  by (cases v) (auto simp: violates_def)

lemma violates_pipe:
  "hints n = Some (DataPipeHint ht) \<Longrightarrow>
   violates chk hints w (n, PipeObj a) = (\<not> chk (pipe_type w a) ht)"
  by (simp add: violates_def)


lemmas cons_del = validate_arguments.simps(2) hinted_pipes.simps(2)

lemma validate_error_is_TypeError:
  "fst (validate_arguments chk hints bound w) = Inl e \<Longrightarrow> e = TypeError"
proof (induction bound arbitrary: w)
  case Nil
  then show ?case by simp
next
  case (Cons x bound)
  obtain n v where x: "x = (n, v)" by (cases x)
  show ?case
  proof (cases rule: bound_cases [where hints = hints and n = n and v = v])
    case unhinted
    from Cons.prems Cons.IH show ?thesis
      by (simp add: x validate_unhinted [where hints = hints and n = n, OF unhinted] del: cons_del)
  next
    case (not_pipe ht)
    from Cons.prems show ?thesis
      by (simp add: x validate_not_pipe [where hints = hints and n = n, OF not_pipe] del: cons_del)
  next
    case (pipe ht a)
    from Cons.prems Cons.IH show ?thesis
      by (simp add: x pipe(2) validate_pipe [where hints = hints and n = n, OF pipe(1)] del: cons_del split: if_splits)
  qed
qed

lemma validate_frame:
  "a \<notin> set (hinted_pipes hints bound) \<Longrightarrow>
   pipe_type (snd (validate_arguments chk hints bound w)) a = pipe_type w a"
proof (induction bound arbitrary: w)
  case Nil
  then show ?case by simp
next
  case (Cons x bound)
  obtain n v where x: "x = (n, v)" by (cases x)
  show ?case
  proof (cases rule: bound_cases [where hints = hints and n = n and v = v])
    case unhinted
    from Cons.prems Cons.IH show ?thesis
      by (simp add: x validate_unhinted [where hints = hints and n = n, OF unhinted] hinted_pipes_unhinted [where hints = hints and n = n, OF unhinted]
          del: cons_del)
  next
    case (not_pipe ht)
    show ?thesis by (simp add: x validate_not_pipe [where hints = hints and n = n, OF not_pipe] del: cons_del)
  next
    case (pipe ht b)
    from Cons.prems have ne: "a \<noteq> b" and na: "a \<notin> set (hinted_pipes hints bound)"
      by (simp_all add: x pipe(2) hinted_pipes_pipe [where hints = hints and n = n, OF pipe(1)] del: cons_del)
    from Cons.IH [OF na] ne show ?thesis
      by (simp add: x pipe(2) validate_pipe [where hints = hints and n = n, OF pipe(1)] del: cons_del)
  qed
qed

lemma validate_other_fields:
  "determinism (snd (validate_arguments chk hints bound w)) = determinism w
   \<and> nd_objs (snd (validate_arguments chk hints bound w)) = nd_objs w
   \<and> ext (snd (validate_arguments chk hints bound w)) = ext w"
proof (induction bound arbitrary: w)
  case Nil
  then show ?case by simp
next
  case (Cons x bound)
  obtain n v where x: "x = (n, v)" by (cases x)
  show ?case
  proof (cases rule: bound_cases [where hints = hints and n = n and v = v])
    case unhinted
    from Cons.IH show ?thesis
      by (simp add: x validate_unhinted [where hints = hints and n = n, OF unhinted] del: cons_del)
  next
    case (not_pipe ht)
    show ?thesis by (simp add: x validate_not_pipe [where hints = hints and n = n, OF not_pipe] del: cons_del)
  next
    case (pipe ht b)
    from Cons.IH [of "w\<lparr>pipe_type := (pipe_type w)(b := ht)\<rparr>"] show ?thesis
      by (simp add: x pipe(2) validate_pipe [where hints = hints and n = n, OF pipe(1)] del: cons_del)
  qed
qed

lemma not_a_pipe_iff:
  "not_a_pipe hints (n, v) = (\<exists>ht. hints n = Some (DataPipeHint ht) \<and> (\<forall>a. v \<noteq> PipeObj a))"
  by (cases "hints n"; cases v; simp add: not_a_pipe_def split: hint.splits)

lemma validate_not_a_pipe:
  "\<exists>b\<in>set bound. not_a_pipe hints b \<Longrightarrow>
   fst (validate_arguments chk hints bound w) = Inl TypeError"
proof (induction bound arbitrary: w)
  case Nil
  then show ?case by simp
next
  case (Cons x bound)
  obtain n v where x: "x = (n, v)" by (cases x)
  show ?case
  proof (cases rule: bound_cases [where hints = hints and n = n and v = v])
    case unhinted
    then have "\<not> not_a_pipe hints x" by (simp add: x not_a_pipe_iff)
    with Cons.prems have "\<exists>b\<in>set bound. not_a_pipe hints b" by auto
    from Cons.IH [OF this] show ?thesis
      by (simp add: x validate_unhinted [where hints = hints and n = n, OF unhinted] del: cons_del)
  next
    case (not_pipe ht)
    show ?thesis by (simp add: x validate_not_pipe [where hints = hints and n = n, OF not_pipe] del: cons_del)
  next
    case (pipe ht a)
    then have "\<not> not_a_pipe hints x" by (simp add: x not_a_pipe_iff)
    with Cons.prems have "\<exists>b\<in>set bound. not_a_pipe hints b" by auto
    from Cons.IH [OF this] show ?thesis
      by (simp add: x pipe(2) validate_pipe [where hints = hints and n = n, OF pipe(1)] del: cons_del)
  qed
qed

lemma violates_update:
  "a \<notin> set (hinted_pipes hints bound) \<Longrightarrow> b \<in> set bound \<Longrightarrow>
   violates chk hints (w\<lparr>pipe_type := (pipe_type w)(a := t)\<rparr>) b = violates chk hints w b"
proof (induction bound)
  case Nil
  then show ?case by simp
next
  case (Cons x bound)
  obtain n v where x: "x = (n, v)" by (cases x)
  show ?case
  proof (cases "b = x")
    case False
    with Cons.prems have b: "b \<in> set bound" by simp
    have "a \<notin> set (hinted_pipes hints bound)"
    proof (cases rule: bound_cases [where hints = hints and n = n and v = v])
      case unhinted
      from Cons.prems(1) show ?thesis
        by (simp add: x hinted_pipes_unhinted [where hints = hints and n = n, OF unhinted] del: cons_del)
    next
      case (not_pipe ht)
      from Cons.prems(1) show ?thesis
        by (simp add: x hinted_pipes_not_pipe [where hints = hints and n = n, OF not_pipe] del: cons_del)
    next
      case (pipe ht c)
      from Cons.prems(1) show ?thesis
        by (simp add: x pipe(2) hinted_pipes_pipe [where hints = hints and n = n, OF pipe(1)] del: cons_del)
    qed
    from Cons.IH [OF this b] show ?thesis .
  next
    case True
    show ?thesis
    proof (cases rule: bound_cases [where hints = hints and n = n and v = v])
      case unhinted
      show ?thesis by (simp add: True x violates_unhinted [where hints = hints and n = n, OF unhinted])
    next
      case (not_pipe ht)
      show ?thesis by (simp add: True x violates_not_pipe [where hints = hints and n = n, OF not_pipe])
    next
      case (pipe ht c)
      from Cons.prems(1) have "a \<noteq> c"
        by (simp add: x pipe(2) hinted_pipes_pipe [where hints = hints and n = n, OF pipe(1)] del: cons_del)
      then show ?thesis by (simp add: True x pipe(2) violates_pipe [where hints = hints and n = n, OF pipe(1)])
    qed
  qed
qed

lemma validate_distinct:
  "distinct (hinted_pipes hints bound) \<Longrightarrow>
   fst (validate_arguments chk hints bound w) =
     (if \<exists>b\<in>set bound. violates chk hints w b then Inl TypeError else Inr ())"
proof (induction bound arbitrary: w)
  case Nil
  show ?case by simp
next
  case (Cons x bound)
  obtain n v where x: "x = (n, v)" by (cases x)
  show ?case
  proof (cases rule: bound_cases [where hints = hints and n = n and v = v])
    case unhinted
    from Cons.prems have "distinct (hinted_pipes hints bound)"
      by (simp add: x hinted_pipes_unhinted [where hints = hints and n = n, OF unhinted] del: cons_del)
    from Cons.IH [OF this, of w] show ?thesis
      by (simp add: x validate_unhinted [where hints = hints and n = n, OF unhinted] violates_unhinted [where hints = hints and n = n, OF unhinted]
          del: cons_del)
  next
    case (not_pipe ht)
    show ?thesis
      by (simp add: x validate_not_pipe [where hints = hints and n = n, OF not_pipe] violates_not_pipe [where hints = hints and n = n, OF not_pipe]
          del: cons_del)
  next
    case (pipe ht a)
    from Cons.prems have na: "a \<notin> set (hinted_pipes hints bound)"
      and di: "distinct (hinted_pipes hints bound)"
      by (simp_all add: x pipe(2) hinted_pipes_pipe [where hints = hints and n = n, OF pipe(1)] del: cons_del)
    have same: "(\<exists>b\<in>set bound. violates chk hints (w\<lparr>pipe_type := (pipe_type w)(a := ht)\<rparr>) b)
        = (\<exists>b\<in>set bound. violates chk hints w b)"
      using violates_update [OF na] by blast
    show ?thesis
    proof (cases "chk (pipe_type w a) ht")
      case True
      with Cons.IH [OF di, of "w\<lparr>pipe_type := (pipe_type w)(a := ht)\<rparr>"] show ?thesis
        by (simp add: x pipe(2) validate_pipe [where hints = hints and n = n, OF pipe(1)] violates_pipe [where hints = hints and n = n, OF pipe(1)] same
            del: cons_del)
    next
      case False
      then show ?thesis
        by (simp add: x pipe(2) validate_pipe [where hints = hints and n = n, OF pipe(1)] violates_pipe [where hints = hints and n = n, OF pipe(1)]
            del: cons_del)
    qed
  qed
qed


lemma validate_append:
  "validate_arguments chk hints (xs @ ys) w =
     (case validate_arguments chk hints xs w of
        (Inl e, w') \<Rightarrow> (Inl e, w')
      | (Inr u, w') \<Rightarrow> validate_arguments chk hints ys w')"
proof (induction xs arbitrary: w)
  case Nil
  show ?case by simp
next
  case (Cons x xs)
  obtain n v where x: "x = (n, v)" by (cases x)
  show ?case
  proof (cases rule: bound_cases [where hints = hints and n = n and v = v])
    case unhinted
    from Cons.IH show ?thesis
      by (simp add: x validate_unhinted [where hints = hints and n = n, OF unhinted]
          del: cons_del)
  next
    case (not_pipe ht)
    show ?thesis
      by (simp add: x validate_not_pipe [where hints = hints and n = n, OF not_pipe]
          del: cons_del)
  next
    case (pipe ht a)
    from Cons.IH show ?thesis
      by (simp add: x pipe(2) validate_pipe [where hints = hints and n = n, OF pipe(1)]
          del: cons_del)
  qed
qed

lemma wrapped_call:
  assumes "construct_time_validation chk f = Inr wrapped"
    and "fn_hints f = Inr hints"
    and "fn_bind f args = Inr bound"
  shows "fn_call wrapped args w =
     (case validate_arguments chk hints bound w of
        (Inl e, w') \<Rightarrow> (Inl e, w')
      | (Inr u, w') \<Rightarrow> fn_call f args w')"
  using assms
  by (auto simp: construct_time_validation_def construct_time_wrapper_def split: if_splits)

text \<open>
  C5, amended. For a function \<open>f\<close> named \<^verbatim>\<open>__init__\<close> or \<^verbatim>\<open>__new__\<close>, wrapped by
  \<^verbatim>\<open>construct_time_validation\<close>, and a call whose arguments bind to its parameters: the
  wrapper raises TypeError, without calling \<open>f\<close>, when some bound argument whose hint is a
  \<^verbatim>\<open>_DataPipeMeta\<close> is not an instance of IterDataPipe; and, provided no pipeline instance
  is bound to two such parameters, it raises TypeError, without calling \<open>f\<close>, when the type of
  such an argument is not a subtype of its hint's type, and when no argument violates either
  condition it calls \<open>f\<close> with the original arguments, in the state the validation left, and
  returns its result.
\<close>

theorem construct_time_wrapper_checks:
  assumes "construct_time_validation chk f = Inr wrapped"
    and "fn_hints f = Inr hints"
    and "fn_bind f args = Inr bound"
  shows "((\<exists>b\<in>set bound. not_a_pipe hints b) \<longrightarrow>
            fn_call wrapped args w = (Inl TypeError, snd (validate_arguments chk hints bound w)))
    \<and> (distinct (hinted_pipes hints bound) \<longrightarrow>
         ((\<exists>b\<in>set bound. violates chk hints w b) \<longrightarrow>
            fn_call wrapped args w = (Inl TypeError, snd (validate_arguments chk hints bound w)))
         \<and> (\<not> (\<exists>b\<in>set bound. violates chk hints w b) \<longrightarrow>
            fn_call wrapped args w =
              fn_call f args (snd (validate_arguments chk hints bound w))))"
proof -
  obtain r w' where v: "validate_arguments chk hints bound w = (r, w')"
    by (cases "validate_arguments chk hints bound w")
  have c: "fn_call wrapped args w = (case r of Inl e \<Rightarrow> (Inl e, w') | Inr u \<Rightarrow> fn_call f args w')"
    using wrapped_call [OF assms, of w] by (simp add: v split: sum.splits)
  have 1: "fn_call wrapped args w = (Inl TypeError, snd (validate_arguments chk hints bound w))"
    if "\<exists>b\<in>set bound. not_a_pipe hints b"
    using validate_not_a_pipe [OF that, of chk w] by (simp add: c v)
  have 2: "fn_call wrapped args w = (Inl TypeError, snd (validate_arguments chk hints bound w))"
    if "distinct (hinted_pipes hints bound)" "\<exists>b\<in>set bound. violates chk hints w b"
    using validate_distinct [OF that(1), of chk w] that(2) by (simp add: c v)
  have 3: "fn_call wrapped args w = fn_call f args (snd (validate_arguments chk hints bound w))"
    if "distinct (hinted_pipes hints bound)" "\<not> (\<exists>b\<in>set bound. violates chk hints w b)"
    using validate_distinct [OF that(1), of chk w] that(2) by (simp add: c v)
  from 1 2 3 show ?thesis by blast
qed

lemma init3_wrapped:
  "construct_time_validation subset_type init3 = Inr init3_validated"
  "fn_hints init3 = Inr init3_hints"
  by (simp_all add: construct_time_validation_def init3_validated_def init3_def)

lemma init3_bind:
  "fn_bind init3 aliased_args = Inr [(''self'', PipeObj 2), (''a'', PipeObj 0), (''b'', PipeObj 0)]"
  "fn_bind init3 failing_args = Inr [(''self'', PipeObj 2), (''a'', PipeObj 0), (''b'', PipeObj 1)]"
  "fn_bind init3 passing_args = Inr [(''self'', PipeObj 2), (''a'', PipeObj 0), (''b'', PipeObj 3)]"
  by (simp_all add: init3_def aliased_args_def failing_args_def passing_args_def)

lemma world_pipes_types:
  "pipe_type world_pipes 0 = [0]" "pipe_type world_pipes (Suc 0) = [5]"
  "pipe_type world_pipes 2 = [1, 2]" "pipe_type world_pipes 3 = [2]"
  "ext world_pipes = []"
  by (simp_all add: world_pipes_def world0_def)

text \<open>
  C5, as stated, fails when one pipeline instance is bound to two hinted parameters: the
  instance 0 has the type \<open>[0]\<close>, a subtype of both hints \<open>[0, 1]\<close> and \<open>[0, 2]\<close>, so no bound
  argument violates its hint; the wrapper replaces the type by \<open>[0, 1]\<close> at the first
  parameter, checks \<open>[0, 1]\<close> against \<open>[0, 2]\<close> at the second, raises TypeError and does not
  call \<open>f\<close>.
\<close>

theorem construct_time_wrapper_aliased:
  "fn_bind init3 aliased_args =
     Inr [(''self'', PipeObj 2), (''a'', PipeObj 0), (''b'', PipeObj 0)]
   \<and> \<not> violates subset_type init3_hints world_pipes (''self'', PipeObj 2)
   \<and> \<not> violates subset_type init3_hints world_pipes (''a'', PipeObj 0)
   \<and> \<not> violates subset_type init3_hints world_pipes (''b'', PipeObj 0)
   \<and> fst (fn_call init3_validated aliased_args world_pipes) = Inl TypeError
   \<and> ext (snd (fn_call init3_validated aliased_args world_pipes)) = []"
  by (simp add: init3_bind init3_validated_def construct_time_wrapper_def violates_def
      init3_hints_def subset_type_def world_pipes_types)

theorem construct_time_wrapper_checks_witness:
  "fst (fn_call init3_validated failing_args world_pipes) = Inl TypeError
   \<and> fst (fn_call init3_validated passing_args world_pipes) = Inr NoneObj
   \<and> ext (snd (fn_call init3_validated passing_args world_pipes)) = [(''__init__'', NoneObj)]"
proof -
  have d2: "distinct (hinted_pipes init3_hints
      [(''self'', PipeObj 2), (''a'', PipeObj 0), (''b'', PipeObj 1)])"
    by (simp add: init3_hints_def)
  have v2: "\<exists>b\<in>set [(''self'', PipeObj 2), (''a'', PipeObj 0), (''b'', PipeObj 1)].
      violates subset_type init3_hints world_pipes b"
    by (simp add: violates_def init3_hints_def subset_type_def world_pipes_types)
  have d3: "distinct (hinted_pipes init3_hints
      [(''self'', PipeObj 2), (''a'', PipeObj 0), (''b'', PipeObj 3)])"
    by (simp add: init3_hints_def)
  have v3: "\<not> (\<exists>b\<in>set [(''self'', PipeObj 2), (''a'', PipeObj 0), (''b'', PipeObj 3)].
      violates subset_type init3_hints world_pipes b)"
    by (simp add: violates_def init3_hints_def subset_type_def world_pipes_types)
  have "fn_call init3_validated failing_args world_pipes =
      (Inl TypeError, snd (validate_arguments subset_type init3_hints
        [(''self'', PipeObj 2), (''a'', PipeObj 0), (''b'', PipeObj 1)] world_pipes))"
    using construct_time_wrapper_checks [OF init3_wrapped init3_bind(2), of world_pipes] d2 v2
    by blast
  then have t2: "fst (fn_call init3_validated failing_args world_pipes) = Inl TypeError"
    by (simp only: fst_conv)
  have t3: "fn_call init3_validated passing_args world_pipes =
      fn_call init3 passing_args (snd (validate_arguments subset_type init3_hints
        [(''self'', PipeObj 2), (''a'', PipeObj 0), (''b'', PipeObj 3)] world_pipes))"
    using construct_time_wrapper_checks [OF init3_wrapped init3_bind(3), of world_pipes] d3 v3
    by blast
  have c3: "fn_call init3 passing_args w = (Inr NoneObj, w\<lparr>ext := ext w @ [(''__init__'', NoneObj)]\<rparr>)"
    for w by (simp add: init3_def)
  have e3: "ext (snd (validate_arguments subset_type init3_hints
        [(''self'', PipeObj 2), (''a'', PipeObj 0), (''b'', PipeObj 3)] world_pipes)) = []"
    by (simp add: validate_other_fields world_pipes_types del: validate_arguments.simps)
  show ?thesis by (simp add: t2 t3 c3 e3 del: validate_arguments.simps)
qed

text \<open>
  C9. The wrapper changes its arguments before it calls \<open>f\<close>: when validation reaches a bound
  pipeline instance \<open>a\<close> whose type passes the subtype check and differs from the hint's type,
  it overwrites the type by the hint's type and goes on with the later arguments in that
  state. The overwrite is not undone: if \<open>a\<close> is not bound to a later hinted parameter, its
  type is the hint's type in the state the call leaves, both when a later argument fails
  validation (the call raises, and the type of \<open>a\<close> has changed) and when none does (\<open>f\<close> runs
  in that state).
\<close>

theorem construct_time_validation_not_atomic:
  assumes "construct_time_validation chk f = Inr wrapped"
    and "fn_hints f = Inr hints"
    and "fn_bind f args = Inr (pre @ (n, PipeObj a) # rest)"
    and "validate_arguments chk hints pre w = (Inr (), w1)"
    and "hints n = Some (DataPipeHint ht)"
    and "chk (pipe_type w1 a) ht"
    and "pipe_type w1 a \<noteq> ht"
    and "a \<notin> set (hinted_pipes hints rest)"
  shows "validate_arguments chk hints (pre @ (n, PipeObj a) # rest) w =
           validate_arguments chk hints rest (w1\<lparr>pipe_type := (pipe_type w1)(a := ht)\<rparr>)
    \<and> pipe_type (snd (validate_arguments chk hints rest
           (w1\<lparr>pipe_type := (pipe_type w1)(a := ht)\<rparr>))) a = ht
    \<and> (fst (validate_arguments chk hints rest (w1\<lparr>pipe_type := (pipe_type w1)(a := ht)\<rparr>))
           = Inl e \<longrightarrow>
         fn_call wrapped args w =
           (Inl e, snd (validate_arguments chk hints rest
              (w1\<lparr>pipe_type := (pipe_type w1)(a := ht)\<rparr>))))
    \<and> (fst (validate_arguments chk hints rest (w1\<lparr>pipe_type := (pipe_type w1)(a := ht)\<rparr>))
           = Inr () \<longrightarrow>
         fn_call wrapped args w =
           fn_call f args (snd (validate_arguments chk hints rest
              (w1\<lparr>pipe_type := (pipe_type w1)(a := ht)\<rparr>))))
    \<and> (a \<notin> set (hinted_pipes hints pre) \<longrightarrow> pipe_type w a = pipe_type w1 a)"
proof -
  let ?w1' = "w1\<lparr>pipe_type := (pipe_type w1)(a := ht)\<rparr>"
  have step: "validate_arguments chk hints (pre @ (n, PipeObj a) # rest) w =
      validate_arguments chk hints rest ?w1'"
    using assms(4,6)
    by (simp add: validate_append validate_pipe [where hints = hints and n = n, OF assms(5)]
        del: cons_del)
  have kept: "pipe_type (snd (validate_arguments chk hints rest ?w1')) a = ht"
    using validate_frame [OF assms(8), of chk ?w1'] by simp
  obtain r w2 where v: "validate_arguments chk hints rest ?w1' = (r, w2)"
    by (cases "validate_arguments chk hints rest ?w1'")
  have call: "fn_call wrapped args w =
      (case r of Inl e \<Rightarrow> (Inl e, w2) | Inr u \<Rightarrow> fn_call f args w2)"
    using wrapped_call [OF assms(1,2,3), of w] by (simp only: step v split: sum.splits) simp
  have frame: "pipe_type w a = pipe_type w1 a" if "a \<notin> set (hinted_pipes hints pre)"
    using validate_frame [OF that, of chk w] by (simp add: assms(4))
  show ?thesis
    using step kept call frame by (simp add: v)
qed

theorem construct_time_validation_not_atomic_witness:
  "fst (fn_call init3_validated failing_args world_pipes) = Inl TypeError
   \<and> pipe_type (snd (fn_call init3_validated failing_args world_pipes)) 0 = [0, 1]
   \<and> pipe_type world_pipes 0 = [0]"
proof -
  have b: "fn_bind init3 failing_args =
      Inr ([(''self'', PipeObj 2)] @ (''a'', PipeObj 0) # [(''b'', PipeObj 1)])"
    by (simp add: init3_bind)
  have p: "validate_arguments subset_type init3_hints [(''self'', PipeObj 2)] world_pipes =
      (Inr (), world_pipes)"
    by (simp add: init3_hints_def)
  have h: "init3_hints ''a'' = Some (DataPipeHint [0, 1])"
    by (simp add: init3_hints_def)
  have s: "subset_type (pipe_type world_pipes 0) [0, 1]"
    by (simp add: subset_type_def world_pipes_types)
  have d: "pipe_type world_pipes 0 \<noteq> [0, 1]"
    by (simp add: world_pipes_types)
  have r: "0 \<notin> set (hinted_pipes init3_hints [(''b'', PipeObj 1)])"
    by (simp add: init3_hints_def)
  have f: "fst (validate_arguments subset_type init3_hints [(''b'', PipeObj 1)]
      (world_pipes\<lparr>pipe_type := (pipe_type world_pipes)(0 := [0, 1])\<rparr>)) = Inl TypeError"
    by (simp add: init3_hints_def subset_type_def world_pipes_types)
  note t = construct_time_validation_not_atomic [OF init3_wrapped b p h s d r, of TypeError]
  from t f have c: "fn_call init3_validated failing_args world_pipes =
      (Inl TypeError, snd (validate_arguments subset_type init3_hints [(''b'', PipeObj 1)]
        (world_pipes\<lparr>pipe_type := (pipe_type world_pipes)(0 := [0, 1])\<rparr>)))"
    by blast
  from t have k: "pipe_type (snd (validate_arguments subset_type init3_hints [(''b'', PipeObj 1)]
        (world_pipes\<lparr>pipe_type := (pipe_type world_pipes)(0 := [0, 1])\<rparr>))) 0 = [0, 1]"
    by blast
  have 1: "fst (fn_call init3_validated failing_args world_pipes) = Inl TypeError"
    by (simp only: c fst_conv)
  have 2: "pipe_type (snd (fn_call init3_validated failing_args world_pipes)) 0 = [0, 1]"
    by (simp only: c snd_conv k)
  from 1 2 world_pipes_types(1) show ?thesis by blast
qed

end
